theory Spec2Isabelle
  imports Complex_Main
begin

section \<open>Conventions\<close>

text \<open>
  The development embeds \<^verbatim>\<open>system_monitor.py\<close>, the statistics table of
  \<^verbatim>\<open>pdf_report.py\<close> and the start/stop handlers of \<^verbatim>\<open>monitor_ui.py\<close>.

  Python floats are idealised as \<^typ>\<open>real\<close>, Python ints as \<^typ>\<open>int\<close>. Every value the
  program obtains from outside (clock readings, psutil queries, the output of the GPU
  utility, the builtin \<^verbatim>\<open>float()\<close>) is an explicit input of the model. A query that raises is
  the value \<open>Inl e\<close>; methods of \<^verbatim>\<open>SystemMonitor\<close> take the object state and return the
  outcome together with the state the object is left in, also when they raise.
\<close>

datatype py_exception =
    OSError string
  | AttributeError string
  | ValueError string
  | FileNotFoundError string
  | TimeoutExpired string
  | StatisticsError string

fun str_exc :: "py_exception \<Rightarrow> string" where
  "str_exc (OSError m) = m"
| "str_exc (AttributeError m) = m"
| "str_exc (ValueError m) = m"
| "str_exc (FileNotFoundError m) = m"
| "str_exc (TimeoutExpired m) = m"
| "str_exc (StatisticsError m) = m"

type_synonym 'a query = "py_exception + 'a"

section \<open>Formatting with two decimals\<close>

text \<open>
  \<^verbatim>\<open>f"{x:.2f}"\<close>: the value rounded to hundredths (ties to even, as the correctly rounded
  conversion does on an exactly representable tie), a minus sign for negative values, at least
  one integer digit and exactly two fractional digits.
\<close>

definition round_half_even :: "real \<Rightarrow> int" where
  "round_half_even x =
     (let f = \<lfloor>x\<rfloor>; d = x - of_int f
      in if d < 1 / 2 then f else if 1 / 2 < d then f + 1 else if even f then f else f + 1)"

definition digit_char :: "nat \<Rightarrow> char" where
  "digit_char d = char_of (48 + d)"

fun digits_of :: "nat \<Rightarrow> string" where
  "digits_of n =
     (if n < 10 then [digit_char n] else digits_of (n div 10) @ [digit_char (n mod 10)])"

declare digits_of.simps [simp del]

definition fmt_2f :: "real \<Rightarrow> string" where
  "fmt_2f x =
     (let n = nat (round_half_even (\<bar>x\<bar> * 100))
      in (if x < 0 then ''-'' else '''') @ digits_of (n div 100) @ ''.'' @
         [digit_char (n mod 100 div 10), digit_char (n mod 10)])"

section \<open>format_bytes\<close>

text \<open>
  The loop over the unit names: the first unit at which the value is below 1024 is printed,
  otherwise the value is divided by 1024 and the next unit is tried; after the last unit the
  value is printed in PB.
\<close>

fun format_bytes_units :: "string list \<Rightarrow> real \<Rightarrow> string" where
  "format_bytes_units [] bytes_value = fmt_2f bytes_value @ '' PB''"
| "format_bytes_units (unit # units) bytes_value =
     (if bytes_value < 1024 then fmt_2f bytes_value @ '' '' @ unit
      else format_bytes_units units (bytes_value / 1024))"

definition format_bytes :: "real \<Rightarrow> string" where
  "format_bytes bytes_value =
     format_bytes_units [''B'', ''KB'', ''MB'', ''GB'', ''TB''] bytes_value"

section \<open>Values returned by the operating system\<close>

text \<open>
  The named tuples of psutil, restricted to the fields the program reads.
  \<^verbatim>\<open>disk_io_counters()\<close> and \<^verbatim>\<open>net_io_counters()\<close> return \<^verbatim>\<open>None\<close> on a machine without
  disks or interfaces, \<^verbatim>\<open>cpu_freq()\<close> and \<^verbatim>\<open>cpu_count()\<close> return \<^verbatim>\<open>None\<close> when undetermined.
\<close>

record snetio =
  io_bytes_sent :: int
  io_bytes_recv :: int
  io_packets_sent :: int
  io_packets_recv :: int

record sdiskio =
  read_bytes :: int
  write_bytes :: int

record svmem =
  vm_percent :: real
  vm_total :: int
  vm_available :: int
  vm_used :: int

record sswap =
  sw_percent :: real
  sw_total :: int
  sw_used :: int

record sdiskusage =
  du_percent :: real
  du_total :: int
  du_used :: int
  du_free :: int

record completed_process =
  returncode :: int
  stdout :: string

text \<open>
  Everything one pass of \<^verbatim>\<open>collect_snapshot\<close> reads from outside, in the order of the
  calls: \<^verbatim>\<open>datetime.now()\<close>, the three \<^verbatim>\<open>time.time()\<close> readings (in \<^verbatim>\<open>collect_snapshot\<close>,
  \<^verbatim>\<open>get_disk_info\<close> and \<^verbatim>\<open>get_network_info\<close>), the psutil queries and the run of
  \<^verbatim>\<open>nvidia-smi\<close>. \<open>q_sensors_temperatures\<close> is \<open>Inr None\<close> when psutil has no attribute
  \<^verbatim>\<open>sensors_temperatures\<close>; the sensor dictionary is the list of its items.
\<close>

record os_env =
  datetime_now :: real
  time_collect :: real
  q_cpu_percent :: "real query"
  q_cpu_count :: "nat option query"
  q_cpu_freq :: "real option query"
  q_per_cpu :: "real list query"
  q_virtual_memory :: "svmem query"
  q_swap_memory :: "sswap query"
  q_disk_usage :: "sdiskusage query"
  q_disk_io_counters :: "sdiskio option query"
  time_disk :: real
  q_net_io_counters :: "snetio option query"
  time_net :: real
  q_sensors_temperatures :: "(string \<times> real list) list option query"
  q_nvidia_smi :: "completed_process query"

text \<open>What the constructor reads, in the order of its calls.\<close>

record init_env =
  init_time_start :: real
  init_net_io_counters :: "snetio option query"
  init_disk_io_counters :: "sdiskio option query"
  init_time_prev :: real

section \<open>Readings, snapshot, history and object state\<close>

text \<open>
  The dictionaries of the program as records. Keys that occur in several dictionaries are
  told apart by a prefix: \<open>mem_percent\<close> is \<^verbatim>\<open>memory['percent']\<close>, \<open>disk_percent\<close> is
  \<^verbatim>\<open>disk['percent']\<close>, \<open>gpu_memory\<close> and \<open>gpu_temperature\<close> are \<^verbatim>\<open>gpu['memory']\<close> and
  \<^verbatim>\<open>gpu['temperature']\<close>.
\<close>

record cpu_info =
  percent :: real
  count :: "nat option"
  frequency :: real
  per_cpu :: "real list"

record memory_info =
  mem_percent :: real
  mem_total :: int
  mem_available :: int
  mem_used :: int
  swap_percent :: real
  swap_total :: int
  swap_used :: int

record disk_info =
  disk_percent :: real
  disk_total :: int
  disk_used :: int
  disk_free :: int
  read_speed :: real
  write_speed :: real

record network_info =
  bytes_sent :: int
  bytes_recv :: int
  sent_speed :: real
  recv_speed :: real
  packets_sent :: int
  packets_recv :: int

text \<open>
  A value of the temperature dictionary is a list of readings, or the text stored under
  the key \<^verbatim>\<open>'error'\<close>.
\<close>

datatype temp_value = TempList "real list" | TempText string

type_synonym temperature_info = "(string \<times> temp_value) list"

record gpu_info =
  available :: bool
  usage :: real
  gpu_memory :: real
  gpu_temperature :: real

record snapshot =
  timestamp :: real
  elapsed_time :: real
  cpu :: cpu_info
  memory :: memory_info
  disk :: disk_info
  network :: network_info
  temperature :: temperature_info
  gpu :: gpu_info

record history =
  timestamps :: "real list"
  cpu_percent :: "real list"
  memory_percent :: "real list"
  disk_read :: "real list"
  disk_write :: "real list"
  net_sent :: "real list"
  net_recv :: "real list"
  temperatures :: "real list"
  gpu_usage :: "real list"

record system_monitor =
  history :: history
  start_time :: real
  prev_net_io :: "snetio option"
  prev_disk_io :: "sdiskio option"
  prev_time :: real

section \<open>SystemMonitor\<close>

definition empty_history :: history where
  "empty_history =
     \<lparr>timestamps = [], cpu_percent = [], memory_percent = [], disk_read = [],
      disk_write = [], net_sent = [], net_recv = [], temperatures = [], gpu_usage = []\<rparr>"

text \<open>\<^verbatim>\<open>__init__\<close>: a query that raises leaves no object.\<close>

definition SystemMonitor_init :: "init_env \<Rightarrow> system_monitor query" where
  "SystemMonitor_init ie =
     (case init_net_io_counters ie of
        Inl e \<Rightarrow> Inl e
      | Inr net_io \<Rightarrow>
          (case init_disk_io_counters ie of
             Inl e \<Rightarrow> Inl e
           | Inr disk_io \<Rightarrow>
               Inr \<lparr>history = empty_history, start_time = init_time_start ie,
                    prev_net_io = net_io, prev_disk_io = disk_io,
                    prev_time = init_time_prev ie\<rparr>))"

definition get_cpu_info :: "os_env \<Rightarrow> cpu_info query" where
  "get_cpu_info env =
     (case q_cpu_percent env of
        Inl e \<Rightarrow> Inl e
      | Inr cpu_pct \<Rightarrow>
     (case q_cpu_count env of
        Inl e \<Rightarrow> Inl e
      | Inr cpu_count \<Rightarrow>
     (case q_cpu_freq env of
        Inl e \<Rightarrow> Inl e
      | Inr cpu_freq \<Rightarrow>
     (case q_per_cpu env of
        Inl e \<Rightarrow> Inl e
      | Inr per \<Rightarrow>
          Inr \<lparr>percent = cpu_pct, count = cpu_count,
               frequency = (case cpu_freq of Some current \<Rightarrow> current | None \<Rightarrow> 0),
               per_cpu = per\<rparr>))))"

definition get_memory_info :: "os_env \<Rightarrow> memory_info query" where
  "get_memory_info env =
     (case q_virtual_memory env of
        Inl e \<Rightarrow> Inl e
      | Inr vm \<Rightarrow>
     (case q_swap_memory env of
        Inl e \<Rightarrow> Inl e
      | Inr swap \<Rightarrow>
          Inr \<lparr>mem_percent = vm_percent vm, mem_total = vm_total vm,
               mem_available = vm_available vm, mem_used = vm_used vm,
               swap_percent = sw_percent swap, swap_total = sw_total swap,
               swap_used = sw_used swap\<rparr>))"

text \<open>
  \<^verbatim>\<open>get_disk_info\<close>: the rates are computed when the time since \<^verbatim>\<open>_prev_time\<close> is positive
  and both the new and the stored counters are present; \<^verbatim>\<open>_prev_disk_io\<close> is replaced only
  by counters that are present, \<^verbatim>\<open>_prev_time\<close> is not written here.
\<close>

definition get_disk_info :: "os_env \<Rightarrow> system_monitor \<Rightarrow> disk_info query \<times> system_monitor" where
  "get_disk_info env self =
     (case q_disk_usage env of
        Inl e \<Rightarrow> (Inl e, self)
      | Inr disk_usage \<Rightarrow>
     (case q_disk_io_counters env of
        Inl e \<Rightarrow> (Inl e, self)
      | Inr disk_io \<Rightarrow>
          (let current_time = time_disk env;
               time_delta = current_time - prev_time self;
               speeds =
                 (case (disk_io, prev_disk_io self) of
                    (Some cur, Some prev) \<Rightarrow>
                      if time_delta > 0
                      then (real_of_int (read_bytes cur - read_bytes prev) / time_delta,
                            real_of_int (write_bytes cur - write_bytes prev) / time_delta)
                      else (0, 0)
                  | _ \<Rightarrow> (0, 0));
               self' = (case disk_io of
                          Some cur \<Rightarrow> self\<lparr>prev_disk_io := Some cur\<rparr>
                        | None \<Rightarrow> self)
           in (Inr \<lparr>disk_percent = du_percent disk_usage, disk_total = du_total disk_usage,
                    disk_used = du_used disk_usage, disk_free = du_free disk_usage,
                    read_speed = fst speeds, write_speed = snd speeds\<rparr>,
               self'))))"

text \<open>
  \<^verbatim>\<open>get_network_info\<close>: reading a field of \<^verbatim>\<open>None\<close> raises AttributeError. With a positive
  time difference that happens in the rate computation, before the state is written; otherwise
  it happens when the result dictionary is built, after \<^verbatim>\<open>_prev_net_io\<close> and \<^verbatim>\<open>_prev_time\<close>
  have been assigned.
\<close>

definition none_attr :: py_exception where
  "none_attr = AttributeError ''NoneType object has no attribute''"

definition get_network_info ::
  "os_env \<Rightarrow> system_monitor \<Rightarrow> network_info query \<times> system_monitor" where
  "get_network_info env self =
     (case q_net_io_counters env of
        Inl e \<Rightarrow> (Inl e, self)
      | Inr net_io \<Rightarrow>
          (let current_time = time_net env;
               time_delta = current_time - prev_time self;
               self' = self\<lparr>prev_net_io := net_io, prev_time := current_time\<rparr>
           in if time_delta > 0 then
                (case (net_io, prev_net_io self) of
                   (Some cur, Some prev) \<Rightarrow>
                     (Inr \<lparr>bytes_sent = io_bytes_sent cur, bytes_recv = io_bytes_recv cur,
                           sent_speed =
                             real_of_int (io_bytes_sent cur - io_bytes_sent prev) / time_delta,
                           recv_speed =
                             real_of_int (io_bytes_recv cur - io_bytes_recv prev) / time_delta,
                           packets_sent = io_packets_sent cur,
                           packets_recv = io_packets_recv cur\<rparr>,
                      self')
                 | _ \<Rightarrow> (Inl none_attr, self))
              else
                (case net_io of
                   Some cur \<Rightarrow>
                     (Inr \<lparr>bytes_sent = io_bytes_sent cur, bytes_recv = io_bytes_recv cur,
                           sent_speed = 0, recv_speed = 0,
                           packets_sent = io_packets_sent cur,
                           packets_recv = io_packets_recv cur\<rparr>,
                      self')
                 | None \<Rightarrow> (Inl none_attr, self'))))"

text \<open>
  \<^verbatim>\<open>get_temperature_info\<close>: groups with no entries are left out; an exception of the query
  is caught and stored as text under \<^verbatim>\<open>'error'\<close>.
\<close>

definition get_temperature_info :: "os_env \<Rightarrow> temperature_info" where
  "get_temperature_info env =
     (case q_sensors_temperatures env of
        Inl e \<Rightarrow> [(''error'', TempText (str_exc e))]
      | Inr None \<Rightarrow> []
      | Inr (Some sensors) \<Rightarrow>
          (if sensors \<noteq> []
           then map (\<lambda>(name, entries). (name, TempList entries))
                  (filter (\<lambda>(name, entries). entries \<noteq> []) sensors)
           else []))"

text \<open>
  \<^verbatim>\<open>get_gpu_info\<close>. The text written by the utility is stripped of surrounding white space
  and split at every \<^verbatim>\<open>', '\<close>. The builtin \<^verbatim>\<open>float()\<close> is the parameter \<open>to_float\<close>, with
  \<open>None\<close> where it raises ValueError. The assignments to the result dictionary happen one
  after the other, so an exception keeps those already made; every exception is caught.

  A character of the text is its code point, below 256. \<^verbatim>\<open>str.strip()\<close> removes the
  characters for which \<^verbatim>\<open>str.isspace()\<close> holds: in that range the codes 9 to 13, 28 to 32,
  133 (next line) and 160 (no-break space).
\<close>

definition is_space :: "char \<Rightarrow> bool" where
  "is_space c =
     (let n = (of_char c :: nat)
      in (9 \<le> n \<and> n \<le> 13) \<or> (28 \<le> n \<and> n \<le> 32) \<or> n = 133 \<or> n = 160)"

definition strip :: "string \<Rightarrow> string" where
  "strip s = rev (dropWhile is_space (rev (dropWhile is_space s)))"

fun split_comma_space :: "string \<Rightarrow> string \<Rightarrow> string list" where
  "split_comma_space acc [] = [rev acc]"
| "split_comma_space acc [c] = [rev (c # acc)]"
| "split_comma_space acc (c # d # cs) =
     (if c = CHR '','' \<and> d = CHR '' '' then rev acc # split_comma_space [] cs
      else split_comma_space (c # acc) (d # cs))"

definition get_gpu_info :: "(string \<Rightarrow> real option) \<Rightarrow> completed_process query \<Rightarrow> gpu_info" where
  "get_gpu_info to_float run =
     (let gpu_info0 = \<lparr>available = False, usage = 0, gpu_memory = 0, gpu_temperature = 0\<rparr>
      in case run of
           Inl e \<Rightarrow> gpu_info0
         | Inr result \<Rightarrow>
             if returncode result = 0 then
               (let values = split_comma_space [] (strip (stdout result))
                in if length values \<ge> 3 then
                     (let gpu_info1 = gpu_info0\<lparr>available := True\<rparr>
                      in case to_float (values ! 0) of
                           None \<Rightarrow> gpu_info1
                         | Some u \<Rightarrow>
                             (let gpu_info2 = gpu_info1\<lparr>usage := u\<rparr>
                              in case to_float (values ! 1) of
                                   None \<Rightarrow> gpu_info2
                                 | Some m \<Rightarrow>
                                     (let gpu_info3 = gpu_info2\<lparr>gpu_memory := m\<rparr>
                                      in case to_float (values ! 2) of
                                           None \<Rightarrow> gpu_info3
                                         | Some t \<Rightarrow> gpu_info3\<lparr>gpu_temperature := t\<rparr>)))
                   else gpu_info0)
             else gpu_info0)"

text \<open>
  The temperature stored in the history: the mean of all readings of all groups, 0 when
  there is none or when the dictionary has the key \<^verbatim>\<open>'error'\<close>.
\<close>

definition temperature_sums :: "temperature_info \<Rightarrow> real \<times> nat" where
  "temperature_sums temps =
     (if temps \<noteq> [] \<and> ''error'' \<notin> set (map fst temps)
      then fold (\<lambda>(name, values) (avg_temp, temp_count).
                   case values of
                     TempList xs \<Rightarrow> (avg_temp + sum_list xs, temp_count + length xs)
                   | TempText m \<Rightarrow> (avg_temp, temp_count))
             temps (0, 0)
      else (0, 0))"

definition average_temperature :: "temperature_info \<Rightarrow> real" where
  "average_temperature temps =
     (let (avg_temp, temp_count) = temperature_sums temps
      in if temp_count > 0 then avg_temp / real temp_count else avg_temp)"

text \<open>The nine appends of \<^verbatim>\<open>collect_snapshot\<close>.\<close>

definition append_snapshot :: "snapshot \<Rightarrow> history \<Rightarrow> history" where
  "append_snapshot snap h =
     \<lparr>timestamps = timestamps h @ [timestamp snap],
      cpu_percent = cpu_percent h @ [percent (cpu snap)],
      memory_percent = memory_percent h @ [mem_percent (memory snap)],
      disk_read = disk_read h @ [read_speed (disk snap)],
      disk_write = disk_write h @ [write_speed (disk snap)],
      net_sent = net_sent h @ [sent_speed (network snap)],
      net_recv = net_recv h @ [recv_speed (network snap)],
      temperatures = temperatures h @ [average_temperature (temperature snap)],
      gpu_usage = gpu_usage h @ [usage (gpu snap)]\<rparr>"

text \<open>
  \<^verbatim>\<open>collect_snapshot\<close>: the entries of the snapshot dictionary are evaluated in the order
  they are written, so an exception of one reading skips the later ones and every append.
\<close>

definition collect_snapshot ::
  "(string \<Rightarrow> real option) \<Rightarrow> os_env \<Rightarrow> system_monitor \<Rightarrow> snapshot query \<times> system_monitor" where
  "collect_snapshot to_float env self =
     (case get_cpu_info env of
        Inl e \<Rightarrow> (Inl e, self)
      | Inr cpu_r \<Rightarrow>
     (case get_memory_info env of
        Inl e \<Rightarrow> (Inl e, self)
      | Inr memory_r \<Rightarrow>
     (case get_disk_info env self of
        (Inl e, self1) \<Rightarrow> (Inl e, self1)
      | (Inr disk_r, self1) \<Rightarrow>
     (case get_network_info env self1 of
        (Inl e, self2) \<Rightarrow> (Inl e, self2)
      | (Inr network_r, self2) \<Rightarrow>
          (let snap = \<lparr>timestamp = datetime_now env,
                       elapsed_time = time_collect env - start_time self,
                       cpu = cpu_r, memory = memory_r, disk = disk_r, network = network_r,
                       temperature = get_temperature_info env,
                       gpu = get_gpu_info to_float (q_nvidia_smi env)\<rparr>
           in (Inr snap, self2\<lparr>history := append_snapshot snap (history self2)\<rparr>))))))"

definition get_history :: "system_monitor \<Rightarrow> history" where
  "get_history self = history self"

text \<open>\<^verbatim>\<open>clear_history\<close>, with the reading of \<^verbatim>\<open>time.time()\<close> as argument.\<close>

definition clear_history :: "real \<Rightarrow> system_monitor \<Rightarrow> system_monitor" where
  "clear_history now self =
     self\<lparr>history := (history self)\<lparr>timestamps := [], cpu_percent := [], memory_percent := [],
                                     disk_read := [], disk_write := [], net_sent := [],
                                     net_recv := [], temperatures := [], gpu_usage := []\<rparr>,
          start_time := now\<rparr>"

section \<open>The statistics table of the report\<close>

text \<open>
  \<^verbatim>\<open>statistics.mean\<close> and \<^verbatim>\<open>statistics.stdev\<close> of the Python library: the arithmetic mean,
  which raises StatisticsError on empty data, and the square root of the sample variance
  (the sum of squared deviations from the mean over \<open>n - 1\<close>), which raises StatisticsError
  on fewer than two values. The builtins \<^verbatim>\<open>min\<close> and \<^verbatim>\<open>max\<close> raise ValueError on an
  empty list.
\<close>

definition statistics_mean :: "real list \<Rightarrow> real query" where
  "statistics_mean data =
     (if data = [] then Inl (StatisticsError ''mean requires at least one data point'')
      else Inr (sum_list data / real (length data)))"

definition statistics_stdev :: "real list \<Rightarrow> real query" where
  "statistics_stdev data =
     (if length data < 2
      then Inl (StatisticsError ''stdev requires at least two data points'')
      else Inr (sqrt (sum_list (map (\<lambda>x. (x - sum_list data / real (length data))\<^sup>2) data) /
                      real (length data - 1))))"

definition py_min :: "real list \<Rightarrow> real query" where
  "py_min data =
     (case data of
        [] \<Rightarrow> Inl (ValueError ''min() arg is an empty sequence'')
      | x # xs \<Rightarrow> Inr (fold min xs x))"

definition py_max :: "real list \<Rightarrow> real query" where
  "py_max data =
     (case data of
        [] \<Rightarrow> Inl (ValueError ''max() arg is an empty sequence'')
      | x # xs \<Rightarrow> Inr (fold max xs x))"

text \<open>The expression of the last column: \<^verbatim>\<open>statistics.stdev(d) if len(d) > 1 else 0\<close>.\<close>

definition stdev_cell :: "real list \<Rightarrow> real query" where
  "stdev_cell data = (if length data > 1 then statistics_stdev data else Inr 0)"

text \<open>
  The rows of \<^verbatim>\<open>_generate_statistics\<close>. The captions of the first column and of the header
  are Korean text; a row carries the name of its channel instead. A channel that is not
  empty gets one row, whose four cells are evaluated in the order mean, minimum, maximum,
  standard deviation; an exception of one of them is an exception of the method.
\<close>

datatype stat_label =
  CpuUsagePercent | MemoryUsagePercent | DiskReadMBs | DiskWriteMBs | NetSentMBs | NetRecvMBs

datatype stat_row = HeaderRow | StatRow stat_label string string string string

definition stat_row_of :: "stat_label \<Rightarrow> real list \<Rightarrow> stat_row list query" where
  "stat_row_of label data =
     (if data \<noteq> [] then
        (case statistics_mean data of
           Inl e \<Rightarrow> Inl e
         | Inr m \<Rightarrow>
        (case py_min data of
           Inl e \<Rightarrow> Inl e
         | Inr lo \<Rightarrow>
        (case py_max data of
           Inl e \<Rightarrow> Inl e
         | Inr hi \<Rightarrow>
        (case stdev_cell data of
           Inl e \<Rightarrow> Inl e
         | Inr sd \<Rightarrow> Inr [StatRow label (fmt_2f m) (fmt_2f lo) (fmt_2f hi) (fmt_2f sd)]))))
      else Inr [])"

definition to_mb :: "real list \<Rightarrow> real list" where
  "to_mb data = map (\<lambda>x. x / (1024 * 1024)) data"

definition generate_statistics :: "history \<Rightarrow> stat_row list query" where
  "generate_statistics h =
     (if timestamps h = [] then Inr []
      else
        (case stat_row_of CpuUsagePercent (cpu_percent h) of
           Inl e \<Rightarrow> Inl e
         | Inr cpu_rows \<Rightarrow>
        (case stat_row_of MemoryUsagePercent (memory_percent h) of
           Inl e \<Rightarrow> Inl e
         | Inr mem_rows \<Rightarrow>
        (case stat_row_of DiskReadMBs (to_mb (disk_read h)) of
           Inl e \<Rightarrow> Inl e
         | Inr read_rows \<Rightarrow>
        (case stat_row_of DiskWriteMBs (to_mb (disk_write h)) of
           Inl e \<Rightarrow> Inl e
         | Inr write_rows \<Rightarrow>
        (case stat_row_of NetSentMBs (to_mb (net_sent h)) of
           Inl e \<Rightarrow> Inl e
         | Inr sent_rows \<Rightarrow>
        (case stat_row_of NetRecvMBs (to_mb (net_recv h)) of
           Inl e \<Rightarrow> Inl e
         | Inr recv_rows \<Rightarrow>
             Inr (HeaderRow # cpu_rows @ mem_rows @ read_rows @ write_rows @ sent_rows @
                  recv_rows))))))))"

section \<open>Starting and stopping in MonitorUI\<close>

text \<open>
  The state of \<^verbatim>\<open>MonitorUI\<close> that the handlers read and write. The three buttons are
  represented by whether they are enabled. \<open>sampling_loops\<close> counts the threads that were
  started on \<^verbatim>\<open>monitoring_loop\<close> and have not left it; labels and charts are left out.
\<close>

record monitor_ui =
  monitor :: system_monitor
  is_monitoring :: bool
  recording_start_time :: "real option"
  recording_duration :: real
  start_button_enabled :: bool
  stop_button_enabled :: bool
  pdf_button_enabled :: bool
  sampling_loops :: nat

text \<open>
  One run of \<^verbatim>\<open>update_display\<close>: while no session is running it takes a sample, which is
  appended to the history like any other; the drawing of the charts and the scheduling of the
  next run are left out.
\<close>

definition update_display ::
  "(string \<Rightarrow> real option) \<Rightarrow> os_env \<Rightarrow> monitor_ui \<Rightarrow> unit query \<times> monitor_ui" where
  "update_display to_float env ui =
     (if \<not> is_monitoring ui then
        (case collect_snapshot to_float env (monitor ui) of
           (Inl e, m) \<Rightarrow> (Inl e, ui\<lparr>monitor := m\<rparr>)
         | (Inr snap, m) \<Rightarrow> (Inr (), ui\<lparr>monitor := m\<rparr>))
      else (Inr (), ui))"

text \<open>
  \<^verbatim>\<open>__init__\<close>: the monitor is constructed, the fields are set, \<^verbatim>\<open>setup_ui\<close> creates the
  buttons (start enabled, stop and PDF disabled) and the first run of \<^verbatim>\<open>update_display\<close>
  takes the first sample. An exception of the monitor's constructor or of that sample leaves
  no object.
\<close>

definition MonitorUI_init ::
  "init_env \<Rightarrow> (string \<Rightarrow> real option) \<Rightarrow> os_env \<Rightarrow> monitor_ui query" where
  "MonitorUI_init ie to_float env =
     (case SystemMonitor_init ie of
        Inl e \<Rightarrow> Inl e
      | Inr m \<Rightarrow>
          (case update_display to_float env
                  \<lparr>monitor = m, is_monitoring = False, recording_start_time = None,
                   recording_duration = 60, start_button_enabled = True,
                   stop_button_enabled = False, pdf_button_enabled = False,
                   sampling_loops = 0\<rparr> of
             (Inl e, ui) \<Rightarrow> Inl e
           | (Inr u, ui) \<Rightarrow> Inr ui))"

definition on_monitoring_complete :: "monitor_ui \<Rightarrow> monitor_ui" where
  "on_monitoring_complete ui =
     ui\<lparr>start_button_enabled := True, stop_button_enabled := False,
        pdf_button_enabled := True\<rparr>"

text \<open>
  \<^verbatim>\<open>start_monitoring\<close>, with the readings of \<^verbatim>\<open>time.time()\<close> (inside \<^verbatim>\<open>clear_history\<close>)
  and of \<^verbatim>\<open>datetime.now()\<close> as arguments. It ends by starting a thread on
  \<^verbatim>\<open>monitoring_loop\<close>.
\<close>

definition start_monitoring :: "real \<Rightarrow> real \<Rightarrow> monitor_ui \<Rightarrow> monitor_ui" where
  "start_monitoring now_time now_dt ui =
     ui\<lparr>is_monitoring := True,
        monitor := clear_history now_time (monitor ui),
        recording_start_time := Some now_dt,
        start_button_enabled := False, stop_button_enabled := True,
        pdf_button_enabled := False,
        sampling_loops := sampling_loops ui + 1\<rparr>"

definition stop_monitoring :: "monitor_ui \<Rightarrow> monitor_ui" where
  "stop_monitoring ui = on_monitoring_complete (ui\<lparr>is_monitoring := False\<rparr>)"

text \<open>
  One turn of one thread through \<^verbatim>\<open>monitoring_loop\<close>, from the test of the loop to the
  sleep; \<open>now_dt\<close> is the reading of \<^verbatim>\<open>datetime.now()\<close> after the sample. The thread leaves
  the loop when the flag is off, when the recording time is used up (the completion handler,
  scheduled on the main loop, is run at once here) and when an exception ends it: one raised
  by \<^verbatim>\<open>collect_snapshot\<close>, or the subtraction of a start time that was never set.
\<close>

definition monitoring_loop_step ::
  "(string \<Rightarrow> real option) \<Rightarrow> os_env \<Rightarrow> real \<Rightarrow> monitor_ui \<Rightarrow> monitor_ui" where
  "monitoring_loop_step to_float env now_dt ui =
     (if is_monitoring ui then
        (case collect_snapshot to_float env (monitor ui) of
           (Inl e, m) \<Rightarrow> ui\<lparr>monitor := m, sampling_loops := sampling_loops ui - 1\<rparr>
         | (Inr snap, m) \<Rightarrow>
             (case recording_start_time ui of
                None \<Rightarrow> ui\<lparr>monitor := m, sampling_loops := sampling_loops ui - 1\<rparr>
              | Some started \<Rightarrow>
                  (let elapsed = now_dt - started;
                       remaining = recording_duration ui - elapsed
                   in if remaining \<le> 0
                      then on_monitoring_complete
                             (ui\<lparr>monitor := m, is_monitoring := False,
                                 sampling_loops := sampling_loops ui - 1\<rparr>)
                      else ui\<lparr>monitor := m\<rparr>)))
      else ui\<lparr>sampling_loops := sampling_loops ui - 1\<rparr>)"

section \<open>The rate contract of the specification\<close>

text \<open>
  The rate as the specification words it, for comparison with the rates the program
  computes: 0 when the time has not advanced, 0 when the counter has decreased, otherwise
  the difference of the counter over the difference of the time.
\<close>

definition spec_rate :: "int \<Rightarrow> int \<Rightarrow> real \<Rightarrow> real \<Rightarrow> real" where
  "spec_rate prevValue currValue prevTime currTime =
     (if currTime \<le> prevTime then 0
      else if currValue < prevValue then 0
      else real_of_int (currValue - prevValue) / (currTime - prevTime))"

section \<open>The statistics of the specification\<close>

text \<open>
  The row of the statistics table as the specification words it: mean, minimum and maximum
  of the channel and the sample standard deviation with divisor \<open>n - 1\<close>, defined as 0 when
  \<open>n \<le> 1\<close>, each printed with two decimals; no row for a channel without values.
\<close>

definition spec_stdev :: "real list \<Rightarrow> real" where
  "spec_stdev data =
     (if length data \<le> 1 then 0
      else sqrt (sum_list (map (\<lambda>x. (x - sum_list data / real (length data))\<^sup>2) data) /
                 (real (length data) - 1)))"

definition spec_stat_row :: "stat_label \<Rightarrow> real list \<Rightarrow> stat_row list" where
  "spec_stat_row label data =
     (if data = [] then []
      else [StatRow label (fmt_2f (sum_list data / real (length data)))
              (fmt_2f (Min (set data))) (fmt_2f (Max (set data)))
              (fmt_2f (spec_stdev data))])"

section \<open>Example inputs\<close>

text \<open>
  A constructor run at time 8 and a sampling pass at time 10 on a machine without
  temperature sensors and without the GPU utility; between them the disk write counter and
  nothing else has gone down.
\<close>

definition example_init :: init_env where
  "example_init =
     \<lparr>init_time_start = 8,
      init_net_io_counters =
        Inr (Some \<lparr>io_bytes_sent = 1000, io_bytes_recv = 1000,
                   io_packets_sent = 10, io_packets_recv = 10\<rparr>),
      init_disk_io_counters = Inr (Some \<lparr>read_bytes = 1000, write_bytes = 4000\<rparr>),
      init_time_prev = 8\<rparr>"

definition example_monitor :: system_monitor where
  "example_monitor =
     \<lparr>history = empty_history, start_time = 8,
      prev_net_io = Some \<lparr>io_bytes_sent = 1000, io_bytes_recv = 1000,
                          io_packets_sent = 10, io_packets_recv = 10\<rparr>,
      prev_disk_io = Some \<lparr>read_bytes = 1000, write_bytes = 4000\<rparr>,
      prev_time = 8\<rparr>"

definition example_env :: os_env where
  "example_env =
     \<lparr>datetime_now = 10, time_collect = 10,
      q_cpu_percent = Inr 25, q_cpu_count = Inr (Some 4), q_cpu_freq = Inr (Some 2400),
      q_per_cpu = Inr [25, 25, 25, 25],
      q_virtual_memory =
        Inr \<lparr>vm_percent = 50, vm_total = 8000, vm_available = 4000, vm_used = 4000\<rparr>,
      q_swap_memory = Inr \<lparr>sw_percent = 0, sw_total = 0, sw_used = 0\<rparr>,
      q_disk_usage =
        Inr \<lparr>du_percent = 40, du_total = 1000, du_used = 400, du_free = 600\<rparr>,
      q_disk_io_counters = Inr (Some \<lparr>read_bytes = 5000, write_bytes = 3000\<rparr>),
      time_disk = 10,
      q_net_io_counters =
        Inr (Some \<lparr>io_bytes_sent = 2000, io_bytes_recv = 4000,
                   io_packets_sent = 20, io_packets_recv = 40\<rparr>),
      time_net = 10,
      q_sensors_temperatures = Inr None,
      q_nvidia_smi = Inl (FileNotFoundError ''nvidia-smi'')\<rparr>"

text \<open>
  The user interface constructed from these: its first display update is the sampling pass
  at time 10, so the history already holds that sample.
\<close>

definition example_ui :: monitor_ui where
  "example_ui =
     \<lparr>monitor =
        \<lparr>history =
           \<lparr>timestamps = [10], cpu_percent = [25], memory_percent = [50],
            disk_read = [2000], disk_write = [- 500], net_sent = [500], net_recv = [1500],
            temperatures = [0], gpu_usage = [0]\<rparr>,
         start_time = 8,
         prev_net_io = Some \<lparr>io_bytes_sent = 2000, io_bytes_recv = 4000,
                             io_packets_sent = 20, io_packets_recv = 40\<rparr>,
         prev_disk_io = Some \<lparr>read_bytes = 5000, write_bytes = 3000\<rparr>,
         prev_time = 10\<rparr>,
      is_monitoring = False, recording_start_time = None, recording_duration = 60,
      start_button_enabled = True, stop_button_enabled = False, pdf_button_enabled = False,
      sampling_loops = 0\<rparr>"

text \<open>A later sampling pass, at time 13, with the same readings.\<close>

definition example_env_later :: os_env where
  "example_env_later =
     example_env\<lparr>datetime_now := 13, time_collect := 13, time_disk := 13, time_net := 13\<rparr>"

text \<open>
  A history of three samples. The disk and network rates are in bytes per second:
  0, 1 and 2 MB/s read, nothing written, a constant 1 MB/s sent, 0, 2 and 4 MB/s received.
\<close>

definition example_history :: history where
  "example_history =
     \<lparr>timestamps = [1, 2, 3], cpu_percent = [10, 20, 30], memory_percent = [50, 50, 50],
      disk_read = [0, 1048576, 2097152], disk_write = [0, 0, 0],
      net_sent = [1048576, 1048576, 1048576], net_recv = [0, 2097152, 4194304],
      temperatures = [0, 0, 0], gpu_usage = [0, 0, 0]\<rparr>"

text \<open>
  The builtin \<^verbatim>\<open>float()\<close> restricted to non-empty strings of decimal digits, where its
  value is the number written; it stands in for \<open>to_float\<close> in examples.
\<close>

definition digits_float :: "string \<Rightarrow> real option" where
  "digits_float s =
     (if s \<noteq> [] \<and> list_all (\<lambda>c. 48 \<le> (of_char c :: nat) \<and> (of_char c :: nat) \<le> 57) s
      then Some (real (foldl (\<lambda>a c. 10 * a + ((of_char c :: nat) - 48)) 0 s))
      else None)"

section \<open>Successive samples\<close>

text \<open>
  A sequence of calls of \<^verbatim>\<open>collect_snapshot\<close> on the same object, one per element of the
  list of environments. A call that raises does not end the sequence: the object stays in use
  in the state the call left it in.
\<close>

fun collect_snapshots ::
  "(string \<Rightarrow> real option) \<Rightarrow> os_env list \<Rightarrow> system_monitor \<Rightarrow>
     snapshot query list \<times> system_monitor" where
  "collect_snapshots to_float [] self = ([], self)"
| "collect_snapshots to_float (env # envs) self =
     (let (r, self1) = collect_snapshot to_float env self;
          (rs, self2) = collect_snapshots to_float envs self1
      in (r # rs, self2))"

text \<open>The environments of the calls that returned a snapshot.\<close>

definition returned :: "(os_env \<times> snapshot query) list \<Rightarrow> os_env list" where
  "returned calls = map fst (filter (\<lambda>(env, r). \<not> isl r) calls)"

text \<open>All nine channel arrays have length \<open>n\<close>.\<close>

definition lockstep :: "history \<Rightarrow> nat \<Rightarrow> bool" where
  "lockstep h n \<longleftrightarrow>
     length (timestamps h) = n \<and> length (cpu_percent h) = n \<and>
     length (memory_percent h) = n \<and> length (disk_read h) = n \<and>
     length (disk_write h) = n \<and> length (net_sent h) = n \<and> length (net_recv h) = n \<and>
     length (temperatures h) = n \<and> length (gpu_usage h) = n"

section \<open>Evaluation of the examples\<close>

lemma example_init_monitor: "SystemMonitor_init example_init = Inr example_monitor"
  by (simp add: SystemMonitor_init_def example_init_def example_monitor_def)

lemma example_collect:
  "collect_snapshot to_float example_env example_monitor =
     (Inr \<lparr>timestamp = 10, elapsed_time = 2,
           cpu = \<lparr>percent = 25, count = Some 4, frequency = 2400, per_cpu = [25, 25, 25, 25]\<rparr>,
           memory = \<lparr>mem_percent = 50, mem_total = 8000, mem_available = 4000,
                     mem_used = 4000, swap_percent = 0, swap_total = 0, swap_used = 0\<rparr>,
           disk = \<lparr>disk_percent = 40, disk_total = 1000, disk_used = 400, disk_free = 600,
                   read_speed = 2000, write_speed = - 500\<rparr>,
           network = \<lparr>bytes_sent = 2000, bytes_recv = 4000, sent_speed = 500,
                      recv_speed = 1500, packets_sent = 20, packets_recv = 40\<rparr>,
           temperature = [],
           gpu = \<lparr>available = False, usage = 0, gpu_memory = 0, gpu_temperature = 0\<rparr>\<rparr>,
      \<lparr>history =
         \<lparr>timestamps = [10], cpu_percent = [25], memory_percent = [50], disk_read = [2000],
          disk_write = [- 500], net_sent = [500], net_recv = [1500], temperatures = [0],
          gpu_usage = [0]\<rparr>,
       start_time = 8,
       prev_net_io = Some \<lparr>io_bytes_sent = 2000, io_bytes_recv = 4000,
                           io_packets_sent = 20, io_packets_recv = 40\<rparr>,
       prev_disk_io = Some \<lparr>read_bytes = 5000, write_bytes = 3000\<rparr>,
       prev_time = 10\<rparr>)"
  by (simp add: collect_snapshot_def get_cpu_info_def get_memory_info_def get_disk_info_def
      get_network_info_def get_temperature_info_def get_gpu_info_def average_temperature_def
      temperature_sums_def append_snapshot_def example_env_def example_monitor_def
      empty_history_def Let_def)

lemma split_unparsable_line:
  "split_comma_space [] (strip (''[N/A], 512, 45'' @ [CHR 0x0A])) = [''[N/A]'', ''512'', ''45'']"
  by code_simp

lemma digits_float_unparsable: "digits_float ''[N/A]'' = None"
  by code_simp

lemma gpu_well_formed_line:
  "get_gpu_info digits_float (Inr \<lparr>returncode = 0, stdout = ''37, 512, 45'' @ [CHR 0x0A]\<rparr>) =
     \<lparr>available = True, usage = 37, gpu_memory = 512, gpu_temperature = 45\<rparr>"
  by code_simp

section \<open>The history is touched by the appends only\<close>

lemma get_disk_info_history: "history (snd (get_disk_info env self)) = history self"
  by (simp add: get_disk_info_def Let_def split: sum.splits option.splits)

lemma get_network_info_history: "history (snd (get_network_info env self)) = history self"
  by (simp add: get_network_info_def Let_def split: sum.splits option.splits)

lemma collect_snapshot_history:
  "history (snd (collect_snapshot tf env self)) =
     (case fst (collect_snapshot tf env self) of
        Inl e \<Rightarrow> history self
      | Inr snap \<Rightarrow> append_snapshot snap (history self))"
proof -
  obtain d s1 where d: "get_disk_info env self = (d, s1)"
    by (cases "get_disk_info env self")
  obtain n s2 where n: "get_network_info env s1 = (n, s2)"
    by (cases "get_network_info env s1")
  have h1: "history s1 = history self"
    using get_disk_info_history [of env self] d by simp
  have h2: "history s2 = history s1"
    using get_network_info_history [of env s1] n by simp
  show ?thesis
    by (simp add: collect_snapshot_def d n h1 h2 Let_def split: sum.splits)
qed

lemma collect_snapshot_timestamp:
  "fst (collect_snapshot tf env self) = Inr snap \<Longrightarrow> timestamp snap = datetime_now env"
  by (auto simp add: collect_snapshot_def Let_def split: sum.splits prod.splits)

lemma collect_snapshot_optional_readings:
  "isl (fst (collect_snapshot tf env self)) \<or>
   temperature (projr (fst (collect_snapshot tf env self))) = get_temperature_info env \<and>
   gpu (projr (fst (collect_snapshot tf env self))) = get_gpu_info tf (q_nvidia_smi env)"
  by (simp add: collect_snapshot_def Let_def split: sum.splits prod.splits)

lemma collect_snapshot_disk:
  "fst (collect_snapshot tf env self) = Inr snap \<Longrightarrow>
   fst (get_disk_info env self) = Inr (disk snap)"
  by (auto simp add: collect_snapshot_def Let_def split: sum.splits prod.splits)

lemma lockstep_append: "lockstep h n \<Longrightarrow> lockstep (append_snapshot snap h) (Suc n)"
  by (simp add: lockstep_def append_snapshot_def)

lemma lockstep_empty: "lockstep empty_history 0"
  by (simp add: lockstep_def empty_history_def)

lemma clear_history_empty: "history (clear_history now self) = empty_history"
  by (simp add: clear_history_def empty_history_def)

lemma init_history_empty: "SystemMonitor_init ie = Inr self \<Longrightarrow> history self = empty_history"
  by (auto simp add: SystemMonitor_init_def split: sum.splits)

lemma collect_snapshots_channels:
  "lockstep (history self) n \<Longrightarrow>
   lockstep (history (snd (collect_snapshots tf envs self)))
     (n + length (returned (zip envs (fst (collect_snapshots tf envs self))))) \<and>
   timestamps (history (snd (collect_snapshots tf envs self))) =
     timestamps (history self) @
     map datetime_now (returned (zip envs (fst (collect_snapshots tf envs self))))"
proof (induction envs arbitrary: self n)
  case Nil
  then show ?case by (simp add: returned_def)
next
  case (Cons env envs)
  obtain r s1 where c: "collect_snapshot tf env self = (r, s1)"
    by (cases "collect_snapshot tf env self")
  obtain rs s2 where cs: "collect_snapshots tf envs s1 = (rs, s2)"
    by (cases "collect_snapshots tf envs s1")
  show ?case
  proof (cases r)
    case (Inl e)
    then have h: "history s1 = history self"
      using collect_snapshot_history [of tf env self] c by simp
    then have "lockstep (history s1) n"
      using Cons.prems by simp
    from Cons.IH [OF this] show ?thesis
      using c cs Inl h by (simp add: returned_def)
  next
    case (Inr snap)
    then have h: "history s1 = append_snapshot snap (history self)"
      using collect_snapshot_history [of tf env self] c by simp
    have t: "timestamp snap = datetime_now env"
      using collect_snapshot_timestamp [of tf env self snap] c Inr by simp
    have "lockstep (history s1) (Suc n)"
      using Cons.prems h lockstep_append by simp
    from Cons.IH [OF this] show ?thesis
      using c cs Inr h t by (simp add: returned_def append_snapshot_def)
  qed
qed

lemma collect_snapshots_length:
  "length (fst (collect_snapshots tf envs self)) = length envs"
proof (induction envs arbitrary: self)
  case Nil
  show ?case by simp
next
  case (Cons env envs)
  obtain r s1 where c: "collect_snapshot tf env self = (r, s1)"
    by (cases "collect_snapshot tf env self")
  obtain rs s2 where cs: "collect_snapshots tf envs s1 = (rs, s2)"
    by (cases "collect_snapshots tf envs s1")
  have "length rs = length envs"
    using Cons.IH [of s1] cs by simp
  then show ?case
    using c cs by simp
qed

lemma returned_all:
  "length envs = length rs \<Longrightarrow> list_all (\<lambda>r. \<not> isl r) rs \<Longrightarrow> returned (zip envs rs) = envs"
  by (induction envs rs rule: list_induct2) (simp_all add: returned_def)

section \<open>Rates\<close>

text \<open>
  C1, as stated, fails: a counter that has gone down gives a negative rate, not 0. Here the
  stored sent-bytes counter is 1000 at time 8 and the new reading is 500 at time 10; the
  program reports -250 bytes per second where the contract of the specification gives 0.
\<close>

theorem rate_reset_counterexample:
  "fst (get_network_info
          (example_env\<lparr>q_net_io_counters :=
             Inr (Some \<lparr>io_bytes_sent = 500, io_bytes_recv = 4000,
                        io_packets_sent = 20, io_packets_recv = 40\<rparr>)\<rparr>)
          example_monitor) =
     Inr \<lparr>bytes_sent = 500, bytes_recv = 4000, sent_speed = - 250, recv_speed = 1500,
          packets_sent = 20, packets_recv = 40\<rparr> \<and>
   spec_rate 1000 500 8 10 = 0"
  by (simp add: get_network_info_def example_env_def example_monitor_def spec_rate_def)

text \<open>
  C1, amended: with the counters present, each of the four rates (network sent and received,
  disk read and write) is 0 when the current time is not after \<^verbatim>\<open>_prev_time\<close>, and otherwise
  the difference of the counter, whatever its sign, divided by the time since \<^verbatim>\<open>_prev_time\<close>.
  \<^verbatim>\<open>get_network_info\<close> stores the new counters and the new time, \<^verbatim>\<open>get_disk_info\<close> stores
  the new counters only.
\<close>

theorem rates_are_counter_differences:
  assumes "q_net_io_counters env = Inr (Some ncur)"
    and "prev_net_io self = Some nprev"
    and "q_disk_usage env = Inr du"
    and "q_disk_io_counters env = Inr (Some dcur)"
    and "prev_disk_io self = Some dprev"
  shows
    "get_network_info env self =
       (Inr \<lparr>bytes_sent = io_bytes_sent ncur, bytes_recv = io_bytes_recv ncur,
             sent_speed =
               (if time_net env \<le> prev_time self then 0
                else real_of_int (io_bytes_sent ncur - io_bytes_sent nprev) /
                     (time_net env - prev_time self)),
             recv_speed =
               (if time_net env \<le> prev_time self then 0
                else real_of_int (io_bytes_recv ncur - io_bytes_recv nprev) /
                     (time_net env - prev_time self)),
             packets_sent = io_packets_sent ncur, packets_recv = io_packets_recv ncur\<rparr>,
        self\<lparr>prev_net_io := Some ncur, prev_time := time_net env\<rparr>) \<and>
     get_disk_info env self =
       (Inr \<lparr>disk_percent = du_percent du, disk_total = du_total du, disk_used = du_used du,
             disk_free = du_free du,
             read_speed =
               (if time_disk env \<le> prev_time self then 0
                else real_of_int (read_bytes dcur - read_bytes dprev) /
                     (time_disk env - prev_time self)),
             write_speed =
               (if time_disk env \<le> prev_time self then 0
                else real_of_int (write_bytes dcur - write_bytes dprev) /
                     (time_disk env - prev_time self))\<rparr>,
        self\<lparr>prev_disk_io := Some dcur\<rparr>)"
proof -
  have "get_network_info env self =
       (Inr \<lparr>bytes_sent = io_bytes_sent ncur, bytes_recv = io_bytes_recv ncur,
             sent_speed =
               (if time_net env \<le> prev_time self then 0
                else real_of_int (io_bytes_sent ncur - io_bytes_sent nprev) /
                     (time_net env - prev_time self)),
             recv_speed =
               (if time_net env \<le> prev_time self then 0
                else real_of_int (io_bytes_recv ncur - io_bytes_recv nprev) /
                     (time_net env - prev_time self)),
             packets_sent = io_packets_sent ncur, packets_recv = io_packets_recv ncur\<rparr>,
        self\<lparr>prev_net_io := Some ncur, prev_time := time_net env\<rparr>)"
    using assms(1,2) by (simp add: get_network_info_def Let_def)
  moreover have "get_disk_info env self =
       (Inr \<lparr>disk_percent = du_percent du, disk_total = du_total du, disk_used = du_used du,
             disk_free = du_free du,
             read_speed =
               (if time_disk env \<le> prev_time self then 0
                else real_of_int (read_bytes dcur - read_bytes dprev) /
                     (time_disk env - prev_time self)),
             write_speed =
               (if time_disk env \<le> prev_time self then 0
                else real_of_int (write_bytes dcur - write_bytes dprev) /
                     (time_disk env - prev_time self))\<rparr>,
        self\<lparr>prev_disk_io := Some dcur\<rparr>)"
    using assms(3,4,5) by (simp add: get_disk_info_def Let_def)
  ultimately show ?thesis by simp
qed

theorem rates_are_counter_differences_witness:
  "q_net_io_counters example_env =
     Inr (Some \<lparr>io_bytes_sent = 2000, io_bytes_recv = 4000,
                io_packets_sent = 20, io_packets_recv = 40\<rparr>) \<and>
   prev_net_io example_monitor =
     Some \<lparr>io_bytes_sent = 1000, io_bytes_recv = 1000,
           io_packets_sent = 10, io_packets_recv = 10\<rparr> \<and>
   q_disk_usage example_env =
     Inr \<lparr>du_percent = 40, du_total = 1000, du_used = 400, du_free = 600\<rparr> \<and>
   q_disk_io_counters example_env = Inr (Some \<lparr>read_bytes = 5000, write_bytes = 3000\<rparr>) \<and>
   prev_disk_io example_monitor = Some \<lparr>read_bytes = 1000, write_bytes = 4000\<rparr> \<and>
   fst (get_network_info example_env example_monitor) =
     Inr \<lparr>bytes_sent = 2000, bytes_recv = 4000, sent_speed = 500, recv_speed = 1500,
          packets_sent = 20, packets_recv = 40\<rparr> \<and>
   fst (get_disk_info example_env example_monitor) =
     Inr \<lparr>disk_percent = 40, disk_total = 1000, disk_used = 400, disk_free = 600,
          read_speed = 2000, write_speed = - 500\<rparr>"
proof -
  have h1: "q_net_io_counters example_env =
     Inr (Some \<lparr>io_bytes_sent = 2000, io_bytes_recv = 4000,
                io_packets_sent = 20, io_packets_recv = 40\<rparr>)"
    by (simp add: example_env_def)
  have h2: "prev_net_io example_monitor =
     Some \<lparr>io_bytes_sent = 1000, io_bytes_recv = 1000,
           io_packets_sent = 10, io_packets_recv = 10\<rparr>"
    by (simp add: example_monitor_def)
  have h3: "q_disk_usage example_env =
     Inr \<lparr>du_percent = 40, du_total = 1000, du_used = 400, du_free = 600\<rparr>"
    by (simp add: example_env_def)
  have h4: "q_disk_io_counters example_env =
     Inr (Some \<lparr>read_bytes = 5000, write_bytes = 3000\<rparr>)"
    by (simp add: example_env_def)
  have h5: "prev_disk_io example_monitor = Some \<lparr>read_bytes = 1000, write_bytes = 4000\<rparr>"
    by (simp add: example_monitor_def)
  have t: "time_net example_env = 10" "time_disk example_env = 10"
    "prev_time example_monitor = 8"
    by (simp_all add: example_env_def example_monitor_def)
  show ?thesis
    using rates_are_counter_differences [OF h1 h2 h3 h4 h5] h1 h2 h3 h4 h5 t by simp
qed

text \<open>
  C5, as stated, fails on both counts at the first sample of the example: the constructor
  stores the counters it reads at time 8, so the first sample, at time 10, reports the
  growth since then (read rate 2000, not 0), and the write counter, which has gone down,
  gives the negative rate -500.
\<close>

theorem first_sample_disk_rates_counterexample:
  "SystemMonitor_init example_init = Inr example_monitor \<and>
   fst (get_disk_info example_env example_monitor) =
     Inr \<lparr>disk_percent = 40, disk_total = 1000, disk_used = 400, disk_free = 600,
          read_speed = 2000, write_speed = - 500\<rparr>"
  by (simp add: SystemMonitor_init_def get_disk_info_def example_env_def
      example_monitor_def example_init_def)

text \<open>
  C5, amended: with the counters present, the read rate is not negative when the read
  counter has not gone down since the stored reading, and the write rate is not negative
  when the write counter has not gone down, each whatever the other counter did. On the
  first sample after construction the stored reading and time are the ones the constructor
  took, so each rate is the growth of its counter since construction divided by the time
  since construction, and 0 when that time is not positive.
\<close>

theorem disk_rates_first_sample:
  assumes "SystemMonitor_init ie = Inr self"
    and "init_disk_io_counters ie = Inr (Some prev)"
    and "q_disk_usage env = Inr du"
    and "q_disk_io_counters env = Inr (Some cur)"
    and "prev_disk_io s = Some p"
  shows
    "fst (get_disk_info env self) =
       Inr \<lparr>disk_percent = du_percent du, disk_total = du_total du, disk_used = du_used du,
            disk_free = du_free du,
            read_speed =
              (if time_disk env \<le> init_time_prev ie then 0
               else real_of_int (read_bytes cur - read_bytes prev) /
                    (time_disk env - init_time_prev ie)),
            write_speed =
              (if time_disk env \<le> init_time_prev ie then 0
               else real_of_int (write_bytes cur - write_bytes prev) /
                    (time_disk env - init_time_prev ie))\<rparr> \<and>
     \<not> isl (fst (get_disk_info env s)) \<and>
     (read_bytes p \<le> read_bytes cur \<longrightarrow>
        0 \<le> read_speed (projr (fst (get_disk_info env s)))) \<and>
     (write_bytes p \<le> write_bytes cur \<longrightarrow>
        0 \<le> write_speed (projr (fst (get_disk_info env s))))"
proof -
  from assms(1,2) have st: "prev_disk_io self = Some prev" "prev_time self = init_time_prev ie"
    by (auto simp add: SystemMonitor_init_def split: sum.splits)
  have first: "fst (get_disk_info env self) =
       Inr \<lparr>disk_percent = du_percent du, disk_total = du_total du, disk_used = du_used du,
            disk_free = du_free du,
            read_speed =
              (if time_disk env \<le> init_time_prev ie then 0
               else real_of_int (read_bytes cur - read_bytes prev) /
                    (time_disk env - init_time_prev ie)),
            write_speed =
              (if time_disk env \<le> init_time_prev ie then 0
               else real_of_int (write_bytes cur - write_bytes prev) /
                    (time_disk env - init_time_prev ie))\<rparr>"
    using assms(3,4) st by (simp add: get_disk_info_def Let_def)
  have returns: "\<not> isl (fst (get_disk_info env s))"
    using assms(3,4,5) by (simp add: get_disk_info_def Let_def)
  have reads: "read_bytes p \<le> read_bytes cur \<longrightarrow>
        0 \<le> read_speed (projr (fst (get_disk_info env s)))"
    using assms(3,4,5) by (simp add: get_disk_info_def Let_def)
  have writes: "write_bytes p \<le> write_bytes cur \<longrightarrow>
        0 \<le> write_speed (projr (fst (get_disk_info env s)))"
    using assms(3,4,5) by (simp add: get_disk_info_def Let_def)
  from first returns reads writes show ?thesis by simp
qed

theorem disk_rates_first_sample_witness:
  "SystemMonitor_init example_init = Inr example_monitor \<and>
   init_disk_io_counters example_init = Inr (Some \<lparr>read_bytes = 1000, write_bytes = 4000\<rparr>) \<and>
   q_disk_usage (example_env\<lparr>q_disk_io_counters :=
       Inr (Some \<lparr>read_bytes = 5000, write_bytes = 4500\<rparr>)\<rparr>) =
     Inr \<lparr>du_percent = 40, du_total = 1000, du_used = 400, du_free = 600\<rparr> \<and>
   prev_disk_io example_monitor = Some \<lparr>read_bytes = 1000, write_bytes = 4000\<rparr> \<and>
   (1000::int) \<le> 5000 \<and> (4000::int) \<le> 4500 \<and>
   fst (get_disk_info
          (example_env\<lparr>q_disk_io_counters :=
             Inr (Some \<lparr>read_bytes = 5000, write_bytes = 4500\<rparr>)\<rparr>)
          example_monitor) =
     Inr \<lparr>disk_percent = 40, disk_total = 1000, disk_used = 400, disk_free = 600,
          read_speed = 2000, write_speed = 250\<rparr> \<and>
   0 \<le> read_speed (projr (fst (get_disk_info
          (example_env\<lparr>q_disk_io_counters :=
             Inr (Some \<lparr>read_bytes = 5000, write_bytes = 4500\<rparr>)\<rparr>)
          example_monitor))) \<and>
   0 \<le> write_speed (projr (fst (get_disk_info
          (example_env\<lparr>q_disk_io_counters :=
             Inr (Some \<lparr>read_bytes = 5000, write_bytes = 4500\<rparr>)\<rparr>)
          example_monitor)))"
proof -
  let ?env = "example_env\<lparr>q_disk_io_counters :=
                Inr (Some \<lparr>read_bytes = 5000, write_bytes = 4500\<rparr>)\<rparr>"
  have h1: "SystemMonitor_init example_init = Inr example_monitor"
    by (rule example_init_monitor)
  have h2: "init_disk_io_counters example_init =
              Inr (Some \<lparr>read_bytes = 1000, write_bytes = 4000\<rparr>)"
    by (simp add: example_init_def)
  have h3: "q_disk_usage ?env =
              Inr \<lparr>du_percent = 40, du_total = 1000, du_used = 400, du_free = 600\<rparr>"
    by (simp add: example_env_def)
  have h4: "q_disk_io_counters ?env = Inr (Some \<lparr>read_bytes = 5000, write_bytes = 4500\<rparr>)"
    by simp
  have h5: "prev_disk_io example_monitor = Some \<lparr>read_bytes = 1000, write_bytes = 4000\<rparr>"
    by (simp add: example_monitor_def)
  have h6: "read_bytes \<lparr>read_bytes = 1000, write_bytes = 4000\<rparr>
              \<le> read_bytes \<lparr>read_bytes = 5000, write_bytes = 4500\<rparr>"
    by simp
  have h7: "write_bytes \<lparr>read_bytes = 1000, write_bytes = 4000\<rparr>
              \<le> write_bytes \<lparr>read_bytes = 5000, write_bytes = 4500\<rparr>"
    by simp
  have t: "time_disk ?env = 10" "init_time_prev example_init = 8"
    by (simp_all add: example_env_def example_init_def)
  note w = disk_rates_first_sample [OF h1 h2 h3 h4 h5]
  from w have first: "fst (get_disk_info ?env example_monitor) =
       Inr \<lparr>disk_percent = 40, disk_total = 1000, disk_used = 400, disk_free = 600,
            read_speed = 2000, write_speed = 250\<rparr>"
    using t by simp
  from w h6 have reads: "0 \<le> read_speed (projr (fst (get_disk_info ?env example_monitor)))"
    by blast
  from w h7 have writes: "0 \<le> write_speed (projr (fst (get_disk_info ?env example_monitor)))"
    by blast
  from first reads writes h1 h2 h3 h5 show ?thesis by simp
qed

section \<open>Clearing and reading the history\<close>

text \<open>
  C7: after \<^verbatim>\<open>clear_history\<close>, \<^verbatim>\<open>get_history\<close> returns nine empty channel arrays.
  \<^verbatim>\<open>get_history\<close> writes nothing, so every read of the cleared object returns the same; the
  readings that are no appends (\<^verbatim>\<open>get_disk_info\<close>, \<^verbatim>\<open>get_network_info\<close>) leave the
  arrays empty as well.
\<close>

theorem get_history_after_clear:
  "timestamps (get_history (clear_history now self)) = [] \<and>
   cpu_percent (get_history (clear_history now self)) = [] \<and>
   memory_percent (get_history (clear_history now self)) = [] \<and>
   disk_read (get_history (clear_history now self)) = [] \<and>
   disk_write (get_history (clear_history now self)) = [] \<and>
   net_sent (get_history (clear_history now self)) = [] \<and>
   net_recv (get_history (clear_history now self)) = [] \<and>
   temperatures (get_history (clear_history now self)) = [] \<and>
   gpu_usage (get_history (clear_history now self)) = [] \<and>
   lockstep (get_history (clear_history now self)) 0 \<and>
   get_history (snd (get_disk_info env (clear_history now self))) = empty_history \<and>
   get_history (snd (get_network_info env (clear_history now self))) = empty_history"
proof -
  have "get_history (clear_history now self) = empty_history"
    by (simp add: get_history_def clear_history_empty)
  moreover have "get_history (snd (get_disk_info env (clear_history now self))) = empty_history"
    by (simp add: get_history_def get_disk_info_history clear_history_empty)
  moreover have
    "get_history (snd (get_network_info env (clear_history now self))) = empty_history"
    by (simp add: get_history_def get_network_info_history clear_history_empty)
  ultimately show ?thesis
    by (simp add: empty_history_def lockstep_def)
qed

text \<open>
  C10: \<^verbatim>\<open>clear_history\<close> empties the nine channel arrays and sets \<^verbatim>\<open>start_time\<close> to the
  current time; \<^verbatim>\<open>_prev_net_io\<close>, \<^verbatim>\<open>_prev_disk_io\<close> and \<^verbatim>\<open>_prev_time\<close> keep their values,
  so the disk and network readings taken after the clear are those that would have been
  taken without it: the rates are still relative to the last reading before the clear.
\<close>

theorem clear_history_keeps_rate_state:
  "history (clear_history now self) = empty_history \<and>
   start_time (clear_history now self) = now \<and>
   prev_net_io (clear_history now self) = prev_net_io self \<and>
   prev_disk_io (clear_history now self) = prev_disk_io self \<and>
   prev_time (clear_history now self) = prev_time self \<and>
   fst (get_disk_info env (clear_history now self)) = fst (get_disk_info env self) \<and>
   fst (get_network_info env (clear_history now self)) = fst (get_network_info env self)"
  by (simp add: clear_history_def empty_history_def get_disk_info_def get_network_info_def
      Let_def split: sum.splits option.splits)

section \<open>Exceptions in a sampling pass\<close>

text \<open>
  C2, as stated, fails: when the memory query raises, \<^verbatim>\<open>collect_snapshot\<close> raises the same
  exception and returns no snapshot.
\<close>

theorem collect_snapshot_raises_counterexample:
  "fst (collect_snapshot digits_float
          (example_env\<lparr>q_virtual_memory := Inl (OSError ''read failed'')\<rparr>)
          example_monitor) =
     Inl (OSError ''read failed'')"
  by (simp add: collect_snapshot_def get_cpu_info_def get_memory_info_def example_env_def)

text \<open>
  C2, amended: with the network counters present, \<^verbatim>\<open>collect_snapshot\<close> raises exactly when
  one of the CPU, memory, disk or network queries raises; the outcome of the temperature query
  and of the GPU utility never makes it raise. An exception of the temperature query becomes
  the entry \<^verbatim>\<open>'error'\<close> of the temperature reading, an exception of the GPU utility the
  reading with \<open>available = False\<close>; these two readings are the temperature and GPU
  fields of the snapshot returned. A pass that raises appends nothing to the history; a pass
  that returns appends its snapshot.
\<close>

theorem collect_snapshot_raises_iff:
  assumes "prev_net_io self = Some nprev"
    and "q_net_io_counters env \<noteq> Inr None"
  shows
    "isl (fst (collect_snapshot tf env self)) =
       (isl (q_cpu_percent env) \<or> isl (q_cpu_count env) \<or> isl (q_cpu_freq env) \<or>
        isl (q_per_cpu env) \<or> isl (q_virtual_memory env) \<or> isl (q_swap_memory env) \<or>
        isl (q_disk_usage env) \<or> isl (q_disk_io_counters env) \<or>
        isl (q_net_io_counters env)) \<and>
     get_temperature_info (env\<lparr>q_sensors_temperatures := Inl e\<rparr>) =
       [(''error'', TempText (str_exc e))] \<and>
     get_gpu_info tf (Inl e) =
       \<lparr>available = False, usage = 0, gpu_memory = 0, gpu_temperature = 0\<rparr> \<and>
     history (snd (collect_snapshot tf env self)) =
       (if isl (fst (collect_snapshot tf env self)) then history self
        else append_snapshot (projr (fst (collect_snapshot tf env self))) (history self)) \<and>
     (isl (fst (collect_snapshot tf env self)) \<or>
      temperature (projr (fst (collect_snapshot tf env self))) = get_temperature_info env \<and>
      gpu (projr (fst (collect_snapshot tf env self))) =
        get_gpu_info tf (q_nvidia_smi env))"
proof -
  have raises: "isl (fst (collect_snapshot tf env self)) =
     (isl (q_cpu_percent env) \<or> isl (q_cpu_count env) \<or> isl (q_cpu_freq env) \<or>
      isl (q_per_cpu env) \<or> isl (q_virtual_memory env) \<or> isl (q_swap_memory env) \<or>
      isl (q_disk_usage env) \<or> isl (q_disk_io_counters env) \<or>
      isl (q_net_io_counters env))"
    using assms
    by (simp add: collect_snapshot_def get_cpu_info_def get_memory_info_def get_disk_info_def
        get_network_info_def Let_def split: sum.splits option.splits prod.splits)
  have temp: "get_temperature_info (env\<lparr>q_sensors_temperatures := Inl e\<rparr>) =
     [(''error'', TempText (str_exc e))]"
    by (simp add: get_temperature_info_def)
  have gpu: "get_gpu_info tf (Inl e) =
     \<lparr>available = False, usage = 0, gpu_memory = 0, gpu_temperature = 0\<rparr>"
    by (simp add: get_gpu_info_def)
  have hist: "history (snd (collect_snapshot tf env self)) =
     (if isl (fst (collect_snapshot tf env self)) then history self
      else append_snapshot (projr (fst (collect_snapshot tf env self))) (history self))"
    using collect_snapshot_history [of tf env self]
    by (cases "fst (collect_snapshot tf env self)") simp_all
  note fields = collect_snapshot_optional_readings [of tf env self]
  from raises temp gpu hist fields show ?thesis by blast
qed

theorem collect_snapshot_raises_iff_witness:
  "prev_net_io example_monitor =
     Some \<lparr>io_bytes_sent = 1000, io_bytes_recv = 1000,
           io_packets_sent = 10, io_packets_recv = 10\<rparr> \<and>
   q_net_io_counters (example_env\<lparr>q_sensors_temperatures := Inl (OSError ''no sensors'')\<rparr>)
     \<noteq> Inr None \<and>
   \<not> isl (fst (collect_snapshot digits_float
                 (example_env\<lparr>q_sensors_temperatures := Inl (OSError ''no sensors'')\<rparr>)
                 example_monitor)) \<and>
   get_temperature_info
     (example_env\<lparr>q_sensors_temperatures := Inl (OSError ''no sensors'')\<rparr>) =
     [(''error'', TempText ''no sensors'')] \<and>
   get_gpu_info digits_float (Inl (OSError ''no sensors'')) =
     \<lparr>available = False, usage = 0, gpu_memory = 0, gpu_temperature = 0\<rparr> \<and>
   temperature (projr (fst (collect_snapshot digits_float
                 (example_env\<lparr>q_sensors_temperatures := Inl (OSError ''no sensors'')\<rparr>)
                 example_monitor))) =
     [(''error'', TempText ''no sensors'')] \<and>
   gpu (projr (fst (collect_snapshot digits_float
                 (example_env\<lparr>q_sensors_temperatures := Inl (OSError ''no sensors'')\<rparr>)
                 example_monitor))) =
     \<lparr>available = False, usage = 0, gpu_memory = 0, gpu_temperature = 0\<rparr>"
proof -
  let ?env = "example_env\<lparr>q_sensors_temperatures := Inl (OSError ''no sensors'')\<rparr>"
  have h1: "prev_net_io example_monitor =
     Some \<lparr>io_bytes_sent = 1000, io_bytes_recv = 1000,
           io_packets_sent = 10, io_packets_recv = 10\<rparr>"
    by (simp add: example_monitor_def)
  have h2: "q_net_io_counters ?env \<noteq> Inr None"
    by (simp add: example_env_def)
  have q: "\<not> isl (q_cpu_percent ?env)" "\<not> isl (q_cpu_count ?env)" "\<not> isl (q_cpu_freq ?env)"
    "\<not> isl (q_per_cpu ?env)" "\<not> isl (q_virtual_memory ?env)" "\<not> isl (q_swap_memory ?env)"
    "\<not> isl (q_disk_usage ?env)" "\<not> isl (q_disk_io_counters ?env)"
    "\<not> isl (q_net_io_counters ?env)"
    by (simp_all add: example_env_def)
  note w = collect_snapshot_raises_iff
    [OF h1 h2, where tf = digits_float and e = "OSError ''no sensors''"]
  from w q have r: "\<not> isl (fst (collect_snapshot digits_float ?env example_monitor))"
    by blast
  from w have t: "get_temperature_info
       (?env\<lparr>q_sensors_temperatures := Inl (OSError ''no sensors'')\<rparr>) =
     [(''error'', TempText (str_exc (OSError ''no sensors'')))]"
    by blast
  from w have g: "get_gpu_info digits_float (Inl (OSError ''no sensors'')) =
     \<lparr>available = False, usage = 0, gpu_memory = 0, gpu_temperature = 0\<rparr>"
    by blast
  from w r have f:
    "temperature (projr (fst (collect_snapshot digits_float ?env example_monitor))) =
       get_temperature_info ?env \<and>
     gpu (projr (fst (collect_snapshot digits_float ?env example_monitor))) =
       get_gpu_info digits_float (q_nvidia_smi ?env)"
    by blast
  have tv: "get_temperature_info ?env = [(''error'', TempText ''no sensors'')]"
    by (simp add: get_temperature_info_def)
  have gv: "get_gpu_info digits_float (q_nvidia_smi ?env) =
     \<lparr>available = False, usage = 0, gpu_memory = 0, gpu_temperature = 0\<rparr>"
    by (simp add: get_gpu_info_def example_env_def)
  from r t g f tv gv h1 h2 show ?thesis by simp
qed

section \<open>The channel arrays stay in step\<close>

text \<open>
  C4, as stated, fails for the order of the time stamps: they are the readings of
  \<^verbatim>\<open>datetime.now()\<close>, and when the clock is set back between two passes (here from 10 to 9)
  the array of time stamps decreases.
\<close>

theorem timestamps_order_counterexample:
  "timestamps (history (snd (collect_snapshots digits_float
      [example_env,
       example_env\<lparr>datetime_now := 9, time_collect := 9, time_disk := 9, time_net := 9\<rparr>]
      example_monitor))) = [10, 9] \<and>
   \<not> sorted [10, 9 :: real]"
  by (simp add: collect_snapshot_def get_cpu_info_def get_memory_info_def get_disk_info_def
      get_network_info_def example_env_def example_monitor_def append_snapshot_def
      empty_history_def Let_def)

text \<open>
  C4, amended: the nine channel arrays are empty after construction and after
  \<^verbatim>\<open>clear_history\<close>. From a state in which they all have length \<open>n\<close>, any sequence of calls
  of \<^verbatim>\<open>collect_snapshot\<close> leaves them all with length \<open>n\<close> plus the number of calls that
  returned, which is the number of calls when none raised; the time stamps appended are the
  readings of \<^verbatim>\<open>datetime.now()\<close> of the calls that returned, in call order, so the array is
  non-decreasing when those readings are.
\<close>

theorem history_channels_lockstep:
  assumes "lockstep (history self) n"
    and "SystemMonitor_init ie = Inr self0"
    and "list_all (\<lambda>r. \<not> isl r) (fst (collect_snapshots tf envs self))"
  shows
    "lockstep (history self0) 0 \<and>
     lockstep (history (clear_history now self)) 0 \<and>
     lockstep (history (snd (collect_snapshots tf envs' self)))
       (n + length (returned (zip envs' (fst (collect_snapshots tf envs' self))))) \<and>
     length (returned (zip envs' (fst (collect_snapshots tf envs' self)))) \<le> length envs' \<and>
     timestamps (history (snd (collect_snapshots tf envs' self))) =
       timestamps (history self) @
       map datetime_now (returned (zip envs' (fst (collect_snapshots tf envs' self)))) \<and>
     lockstep (history (snd (collect_snapshots tf envs self))) (n + length envs) \<and>
     timestamps (history (snd (collect_snapshots tf envs self))) =
       timestamps (history self) @ map datetime_now envs"
proof -
  have a: "lockstep (history self0) 0"
    using init_history_empty [OF assms(2)] lockstep_empty by simp
  have b: "lockstep (history (clear_history now self)) 0"
    using lockstep_empty by (simp add: clear_history_empty)
  note c = collect_snapshots_channels [OF assms(1), of tf envs']
  have "length (filter (\<lambda>(env, r). \<not> isl r) (zip envs' (fst (collect_snapshots tf envs' self))))
          \<le> length (zip envs' (fst (collect_snapshots tf envs' self)))"
    by (rule length_filter_le)
  then have d:
    "length (returned (zip envs' (fst (collect_snapshots tf envs' self)))) \<le> length envs'"
    by (simp add: returned_def)
  have r: "returned (zip envs (fst (collect_snapshots tf envs self))) = envs"
    using returned_all [OF _ assms(3)] collect_snapshots_length [of tf envs self] by simp
  note e = collect_snapshots_channels [OF assms(1), of tf envs]
  from a b c d e r show ?thesis by simp
qed

theorem history_channels_lockstep_witness:
  "lockstep (history example_monitor) 0 \<and>
   SystemMonitor_init example_init = Inr example_monitor \<and>
   list_all (\<lambda>r. \<not> isl r)
     (fst (collect_snapshots digits_float
        [example_env,
         example_env\<lparr>datetime_now := 11, time_collect := 11, time_disk := 11,
                     time_net := 11\<rparr>]
        example_monitor)) \<and>
   lockstep (history (snd (collect_snapshots digits_float
        [example_env,
         example_env\<lparr>datetime_now := 11, time_collect := 11, time_disk := 11,
                     time_net := 11\<rparr>]
        example_monitor))) 2 \<and>
   timestamps (history (snd (collect_snapshots digits_float
        [example_env,
         example_env\<lparr>datetime_now := 11, time_collect := 11, time_disk := 11,
                     time_net := 11\<rparr>]
        example_monitor))) = [10, 11]"
proof -
  let ?envs = "[example_env,
         example_env\<lparr>datetime_now := 11, time_collect := 11, time_disk := 11,
                     time_net := 11\<rparr>]"
  have h1: "lockstep (history example_monitor) 0"
    by (simp add: example_monitor_def lockstep_empty)
  have h2: "SystemMonitor_init example_init = Inr example_monitor"
    by (rule example_init_monitor)
  have h3: "list_all (\<lambda>r. \<not> isl r) (fst (collect_snapshots digits_float ?envs example_monitor))"
    by (simp add: example_collect)
       (simp add: collect_snapshot_def get_cpu_info_def get_memory_info_def get_disk_info_def
          get_network_info_def example_env_def Let_def)
  have t: "timestamps (history example_monitor) = []"
    by (simp add: example_monitor_def empty_history_def)
  have m: "map datetime_now ?envs = [10, 11]"
    by (simp add: example_env_def)
  note w = history_channels_lockstep [OF h1 h2 h3, where envs' = "[]" and now = 0]
  from w have l:
    "lockstep (history (snd (collect_snapshots digits_float ?envs example_monitor)))
       (0 + length ?envs)"
    by blast
  from w have ts:
    "timestamps (history (snd (collect_snapshots digits_float ?envs example_monitor))) =
       timestamps (history example_monitor) @ map datetime_now ?envs"
    by blast
  from l ts show ?thesis
    using h1 h2 h3 t m by (simp del: collect_snapshots.simps add: numeral_2_eq_2)
qed

section \<open>The GPU reading\<close>

lemma gpu_unavailable_fields_zero:
  "\<not> available (get_gpu_info to_float run) \<Longrightarrow>
   get_gpu_info to_float run =
     \<lparr>available = False, usage = 0, gpu_memory = 0, gpu_temperature = 0\<rparr>"
  by (simp add: get_gpu_info_def Let_def split: sum.splits option.splits if_splits)

lemma gpu_unavailable_exit_code:
  "returncode result \<noteq> 0 \<Longrightarrow>
   get_gpu_info to_float (Inr result) =
     \<lparr>available = False, usage = 0, gpu_memory = 0, gpu_temperature = 0\<rparr>"
  by (simp add: get_gpu_info_def)

lemma gpu_unavailable_few_fields:
  "length (split_comma_space [] (strip (stdout result))) < 3 \<Longrightarrow>
   get_gpu_info to_float (Inr result) =
     \<lparr>available = False, usage = 0, gpu_memory = 0, gpu_temperature = 0\<rparr>"
  by (simp add: get_gpu_info_def Let_def)

text \<open>
  C6 asks for \<open>available = False\<close> on every malformed output of the GPU utility. The
  program does so when the utility cannot be run, exits with a non-zero code or prints fewer
  than three fields (the three lemmas above), and a reading
  with \<open>available = False\<close> has all numeric fields 0. It does not when a field is not a
  number: the flag is set to \<open>True\<close> before the fields are converted and the exception of
  the conversion is caught after it. For the line \<^verbatim>\<open>[N/A], 512, 45\<close> the reading returned
  has \<open>available = True\<close> and all numeric fields 0.
\<close>

theorem gpu_unparsable_field_reported_available:
  assumes "to_float ''[N/A]'' = None"
  shows "get_gpu_info to_float
           (Inr \<lparr>returncode = 0, stdout = ''[N/A], 512, 45'' @ [CHR 0x0A]\<rparr>) =
         \<lparr>available = True, usage = 0, gpu_memory = 0, gpu_temperature = 0\<rparr>"
  using assms split_unparsable_line by (simp add: get_gpu_info_def Let_def)

theorem gpu_unparsable_field_reported_available_witness:
  "digits_float ''[N/A]'' = None \<and>
   get_gpu_info digits_float
     (Inr \<lparr>returncode = 0, stdout = ''[N/A], 512, 45'' @ [CHR 0x0A]\<rparr>) =
   \<lparr>available = True, usage = 0, gpu_memory = 0, gpu_temperature = 0\<rparr>"
  using gpu_unparsable_field_reported_available [of digits_float] digits_float_unparsable
  by simp

section \<open>Starting twice\<close>

lemma example_ui_constructed:
  "MonitorUI_init example_init digits_float example_env = Inr example_ui"
  by (simp add: MonitorUI_init_def update_display_def example_init_monitor example_collect
      example_ui_def)

text \<open>
  C3, as stated, fails: \<^verbatim>\<open>start_monitoring\<close> called in the running state starts a second
  sampling loop. After the first call, at time 11, the flag is set and one loop is active;
  after the second call, at time 12, two are, and since the flag is still set both pass the
  test of the loop: the next turn of each appends a sample, here two samples with the same
  time stamp 13.
\<close>

theorem start_twice_counterexample:
  "MonitorUI_init example_init digits_float example_env = Inr example_ui \<and>
   is_monitoring (start_monitoring 11 11 example_ui) \<and>
   sampling_loops (start_monitoring 11 11 example_ui) = 1 \<and>
   sampling_loops (start_monitoring 12 12 (start_monitoring 11 11 example_ui)) = 2 \<and>
   timestamps (history (monitor
     (monitoring_loop_step digits_float example_env_later 13
       (monitoring_loop_step digits_float example_env_later 13
         (start_monitoring 12 12 (start_monitoring 11 11 example_ui)))))) = [13, 13]"
proof -
  have "timestamps (history (monitor
     (monitoring_loop_step digits_float example_env_later 13
       (monitoring_loop_step digits_float example_env_later 13
         (start_monitoring 12 12 (start_monitoring 11 11 example_ui)))))) = [13, 13]"
    by (simp add: start_monitoring_def example_ui_def monitoring_loop_step_def
        collect_snapshot_def get_cpu_info_def get_memory_info_def get_disk_info_def
        get_network_info_def example_env_later_def example_env_def append_snapshot_def
        clear_history_def Let_def)
  moreover have "is_monitoring (start_monitoring 11 11 example_ui) \<and>
     sampling_loops (start_monitoring 11 11 example_ui) = 1 \<and>
     sampling_loops (start_monitoring 12 12 (start_monitoring 11 11 example_ui)) = 2"
    by (simp add: start_monitoring_def example_ui_def)
  ultimately show ?thesis
    using example_ui_constructed by simp
qed

text \<open>
  C3, amended: \<^verbatim>\<open>start_monitoring\<close> does not test whether a session is running. In every
  state it sets the flag, clears the history and starts one more sampling loop. What keeps a
  running session from being started again is the start button: \<^verbatim>\<open>start_monitoring\<close>
  disables it, and it is enabled again by \<^verbatim>\<open>stop_monitoring\<close> and by
  \<^verbatim>\<open>on_monitoring_complete\<close>.
\<close>

theorem start_monitoring_unguarded:
  "sampling_loops (start_monitoring now_time now_dt ui) = sampling_loops ui + 1 \<and>
   is_monitoring (start_monitoring now_time now_dt ui) \<and>
   get_history (monitor (start_monitoring now_time now_dt ui)) = empty_history \<and>
   \<not> start_button_enabled (start_monitoring now_time now_dt ui) \<and>
   start_button_enabled (stop_monitoring ui) \<and>
   start_button_enabled (on_monitoring_complete ui)"
  by (simp add: start_monitoring_def stop_monitoring_def on_monitoring_complete_def
      get_history_def clear_history_empty)

section \<open>Statistics\<close>

lemma sqrt_100: "sqrt 100 = 10"
  using real_sqrt_abs [of 10] by simp

lemma fmt_2f_examples:
  "fmt_2f 0 = ''0.00''" "fmt_2f 1 = ''1.00''" "fmt_2f 2 = ''2.00''" "fmt_2f 4 = ''4.00''"
  "fmt_2f 10 = ''10.00''" "fmt_2f 20 = ''20.00''" "fmt_2f 30 = ''30.00''"
  "fmt_2f 50 = ''50.00''"
  by code_simp+

lemma stdev_cell_spec: "stdev_cell data = Inr (spec_stdev data)"
proof (cases "length data \<le> 1")
  case True
  then show ?thesis by (simp add: stdev_cell_def spec_stdev_def)
next
  case False
  then have "real (length data - 1) = real (length data) - 1"
    by (simp add: of_nat_diff)
  with False show ?thesis
    by (simp add: stdev_cell_def statistics_stdev_def spec_stdev_def)
qed

lemma py_min_Min: "data \<noteq> [] \<Longrightarrow> py_min data = Inr (Min (set data))"
proof (cases data)
  case Nil
  assume "data \<noteq> []"
  with Nil show ?thesis by simp
next
  case (Cons x xs)
  have "fold min xs x = Min (set (x # xs))"
    by (rule Min.set_eq_fold [symmetric])
  with Cons show ?thesis by (simp add: py_min_def)
qed

lemma py_max_Max: "data \<noteq> [] \<Longrightarrow> py_max data = Inr (Max (set data))"
proof (cases data)
  case Nil
  assume "data \<noteq> []"
  with Nil show ?thesis by simp
next
  case (Cons x xs)
  have "fold max xs x = Max (set (x # xs))"
    by (rule Max.set_eq_fold [symmetric])
  with Cons show ?thesis by (simp add: py_max_def)
qed

lemma stat_row_of_spec: "stat_row_of label data = Inr (spec_stat_row label data)"
  by (simp add: stat_row_of_def spec_stat_row_def statistics_mean_def py_min_Min py_max_Max
      stdev_cell_spec)

lemma generate_statistics_spec:
  "generate_statistics h =
     Inr (if timestamps h = [] then []
          else HeaderRow #
               spec_stat_row CpuUsagePercent (cpu_percent h) @
               spec_stat_row MemoryUsagePercent (memory_percent h) @
               spec_stat_row DiskReadMBs (map (\<lambda>x. x / 1048576) (disk_read h)) @
               spec_stat_row DiskWriteMBs (map (\<lambda>x. x / 1048576) (disk_write h)) @
               spec_stat_row NetSentMBs (map (\<lambda>x. x / 1048576) (net_sent h)) @
               spec_stat_row NetRecvMBs (map (\<lambda>x. x / 1048576) (net_recv h)))"
  by (simp add: generate_statistics_def stat_row_of_spec to_mb_def)

lemma spec_stat_row_single:
  "spec_stat_row label [x] = [StatRow label (fmt_2f x) (fmt_2f x) (fmt_2f x) ''0.00'']"
  by (simp add: spec_stat_row_def spec_stdev_def fmt_2f_examples)

lemma spec_stat_row_examples:
  "spec_stat_row label [10, 20, 30] = [StatRow label ''20.00'' ''10.00'' ''30.00'' ''10.00'']"
  "spec_stat_row label [50, 50, 50] = [StatRow label ''50.00'' ''50.00'' ''50.00'' ''0.00'']"
  "spec_stat_row label [0, 1, 2] = [StatRow label ''1.00'' ''0.00'' ''2.00'' ''1.00'']"
  "spec_stat_row label [0, 0, 0] = [StatRow label ''0.00'' ''0.00'' ''0.00'' ''0.00'']"
  "spec_stat_row label [1, 1, 1] = [StatRow label ''1.00'' ''1.00'' ''1.00'' ''0.00'']"
  "spec_stat_row label [0, 2, 4] = [StatRow label ''2.00'' ''0.00'' ''4.00'' ''2.00'']"
  by (simp_all add: spec_stat_row_def spec_stdev_def sqrt_100 fmt_2f_examples)

text \<open>
  C8: for every history, every row of the statistics table holds the mean, the minimum, the
  maximum and the standard deviation of its channel (the disk and network channels divided
  by 1024 * 1024), printed with two decimals, where the standard deviation is 0 for a channel
  with at most one value and otherwise the sample standard deviation, the square root of the
  sum of squared deviations from the mean divided by \<open>n - 1\<close>; the table is never refused by
  the statistics library. For the data 10, 20, 30 the cells are mean 20.00, minimum 10.00,
  maximum 30.00 and standard deviation 10.00; a single value gives the standard deviation
  0.00.
\<close>

theorem statistics_sample_stdev:
  "generate_statistics h =
     Inr (if timestamps h = [] then []
          else HeaderRow #
               spec_stat_row CpuUsagePercent (cpu_percent h) @
               spec_stat_row MemoryUsagePercent (memory_percent h) @
               spec_stat_row DiskReadMBs (map (\<lambda>x. x / 1048576) (disk_read h)) @
               spec_stat_row DiskWriteMBs (map (\<lambda>x. x / 1048576) (disk_write h)) @
               spec_stat_row NetSentMBs (map (\<lambda>x. x / 1048576) (net_sent h)) @
               spec_stat_row NetRecvMBs (map (\<lambda>x. x / 1048576) (net_recv h))) \<and>
   stat_row_of label data = Inr (spec_stat_row label data) \<and>
   stdev_cell data =
     Inr (if length data \<le> 1 then 0
          else sqrt (sum_list (map (\<lambda>x. (x - sum_list data / real (length data))\<^sup>2) data) /
                     (real (length data) - 1))) \<and>
   stat_row_of label [10, 20, 30] =
     Inr [StatRow label ''20.00'' ''10.00'' ''30.00'' ''10.00''] \<and>
   stat_row_of label [x] = Inr [StatRow label (fmt_2f x) (fmt_2f x) (fmt_2f x) ''0.00''] \<and>
   generate_statistics example_history =
     Inr [HeaderRow,
          StatRow CpuUsagePercent ''20.00'' ''10.00'' ''30.00'' ''10.00'',
          StatRow MemoryUsagePercent ''50.00'' ''50.00'' ''50.00'' ''0.00'',
          StatRow DiskReadMBs ''1.00'' ''0.00'' ''2.00'' ''1.00'',
          StatRow DiskWriteMBs ''0.00'' ''0.00'' ''0.00'' ''0.00'',
          StatRow NetSentMBs ''1.00'' ''1.00'' ''1.00'' ''0.00'',
          StatRow NetRecvMBs ''2.00'' ''0.00'' ''4.00'' ''2.00'']"
proof -
  have cell: "stdev_cell data =
     Inr (if length data \<le> 1 then 0
          else sqrt (sum_list (map (\<lambda>x. (x - sum_list data / real (length data))\<^sup>2) data) /
                     (real (length data) - 1)))"
    by (simp add: stdev_cell_spec spec_stdev_def)
  have three: "stat_row_of label [10, 20, 30] =
     Inr [StatRow label ''20.00'' ''10.00'' ''30.00'' ''10.00'']"
    by (simp add: stat_row_of_spec spec_stat_row_examples)
  have one: "stat_row_of label [x] =
     Inr [StatRow label (fmt_2f x) (fmt_2f x) (fmt_2f x) ''0.00'']"
    by (simp add: stat_row_of_spec spec_stat_row_single)
  have table: "generate_statistics example_history =
     Inr [HeaderRow,
          StatRow CpuUsagePercent ''20.00'' ''10.00'' ''30.00'' ''10.00'',
          StatRow MemoryUsagePercent ''50.00'' ''50.00'' ''50.00'' ''0.00'',
          StatRow DiskReadMBs ''1.00'' ''0.00'' ''2.00'' ''1.00'',
          StatRow DiskWriteMBs ''0.00'' ''0.00'' ''0.00'' ''0.00'',
          StatRow NetSentMBs ''1.00'' ''1.00'' ''1.00'' ''0.00'',
          StatRow NetRecvMBs ''2.00'' ''0.00'' ''4.00'' ''2.00'']"
    by (simp add: generate_statistics_spec example_history_def spec_stat_row_examples)
  from generate_statistics_spec [of h] stat_row_of_spec [of label data] cell three one table
  show ?thesis by simp
qed

section \<open>Results about format_bytes\<close>

text \<open>
  C9: \<^verbatim>\<open>format_bytes\<close> maps 0 to "0.00 B", 1536 to "1.50 KB" and 1024*1024*1024*2 to
  "2.00 GB".
\<close>

theorem format_bytes_examples:
  "format_bytes 0 = ''0.00 B'' \<and>
   format_bytes 1536 = ''1.50 KB'' \<and>
   format_bytes (1024 * 1024 * 1024 * 2) = ''2.00 GB''"
  by code_simp

end
